theory Spec2Isabelle
  imports Complex_Main
begin

section \<open>Orchestrator: \<open>workflow/trading_graph.py\<close>\<close>

subsection \<open>Data model\<close>

text \<open>
  Modelled from the spec: the declaration of \<open>AgentSignal\<close> lives in
  \<open>agents/base_agent.py\<close>, which is not part of the sources at hand. The fields are the
  ones of the spec's Signal (section 3) and the ones \<open>_signal_to_dict\<close> reads. The action is
  kept as a string, because \<open>_calculate_sentiment\<close> compares it with string literals;
  Python's float and int confidences are real numbers here.
\<close>

record AgentSignal =
  agent_name :: string
  action :: string
  confidence :: real
  reasoning :: string
  key_metrics :: "string list"
  risks :: "string list"
  data_used :: "string list"

text \<open>The agent classes imported by \<open>trading_graph.py\<close>, one constructor per class.\<close>

datatype agent =
    WarrenBuffettAgent
  | MichaelBurryAgent
  | CharlieMungerAgent
  | CathieWoodAgent
  | BillAckmanAgent
  | DegenAgent
  | SolanaSpecialistAgent
  | WhaleWatcherAgent
  | PumpTraderAgent
  | OnChainAnalystAgent
  | RiskManagerAgent
  | PortfolioManagerAgent

text \<open>
  The dataclass \<open>TradingGraph\<close>. The language model handle \<open>llm\<close> is opaque to every
  function below and is left out; \<open>mode\<close> is a plain string at run time.
\<close>

record TradingGraph =
  mode :: string
  show_reasoning :: bool
  persona_agents :: "agent list"
  crypto_agents :: "agent list"
  management_agents :: "string \<rightharpoonup> agent"

subsection \<open>\<open>TradingGraph.__post_init__\<close>\<close>

definition post_init :: "string \<Rightarrow> bool \<Rightarrow> TradingGraph" where
  "post_init m sr =
     (let personas0 = [WarrenBuffettAgent, MichaelBurryAgent];
          personas = (if m = ''full''
                      then personas0 @ [CharlieMungerAgent, CathieWoodAgent, BillAckmanAgent]
                      else personas0);
          crypto = (if m = ''degen''
                    then [DegenAgent, PumpTraderAgent, SolanaSpecialistAgent]
                    else (let base = [DegenAgent, SolanaSpecialistAgent,
                                      WhaleWatcherAgent, OnChainAnalystAgent]
                          in if m = ''full'' then base @ [PumpTraderAgent] else base))
      in \<lparr> mode = m, show_reasoning = sr,
           persona_agents = personas,
           crypto_agents = crypto,
           management_agents = [''risk'' \<mapsto> RiskManagerAgent,
                                ''portfolio'' \<mapsto> PortfolioManagerAgent] \<rparr>)"

text \<open>The number of strategies a constructed orchestrator holds.\<close>

definition roster_total :: "TradingGraph \<Rightarrow> nat" where
  "roster_total g =
     length (persona_agents g) + length (crypto_agents g) + card (dom (management_agents g))"

subsection \<open>\<open>TradingGraph._run_agents_parallel\<close>\<close>

text \<open>
  What \<open>asyncio.gather(*tasks, return_exceptions=True)\<close> hands back for one task: the
  value the coroutine returned, or the exception it raised. A returned value is an
  \<open>AgentSignal\<close> or something else; a raised object is an \<open>Exception\<close> (with its text)
  or a \<open>BaseException\<close> outside that class.
\<close>

datatype invocation_result =
    Returned_signal AgentSignal
  | Raised_exception string
  | Returned_other

text \<open>
  \<open>gather\<close> returns the results in the order of the awaitables, whatever the completion
  order: the result list is the roster mapped through the invocation.
\<close>

definition gather :: "(agent \<Rightarrow> invocation_result) \<Rightarrow> agent list \<Rightarrow> invocation_result list" where
  "gather invoke agents = map invoke agents"

text \<open>
  The collecting loop, with the accumulated \<open>signals\<close> list and the lines printed so far
  as explicit state.
\<close>

fun collect_results ::
  "bool \<Rightarrow> invocation_result list \<Rightarrow> AgentSignal list \<times> string list
     \<Rightarrow> AgentSignal list \<times> string list" where
  "collect_results sr [] acc = acc"
| "collect_results sr (Returned_signal s # rest) (signals, out) =
     collect_results sr rest (signals @ [s], out)"
| "collect_results sr (Raised_exception msg # rest) (signals, out) =
     collect_results sr rest
       (signals, if sr then out @ [''Agent error: '' @ msg] else out)"
| "collect_results sr (Returned_other # rest) (signals, out) =
     collect_results sr rest (signals, out)"

definition run_agents_parallel ::
  "bool \<Rightarrow> (agent \<Rightarrow> invocation_result) \<Rightarrow> agent list \<Rightarrow> AgentSignal list \<times> string list" where
  "run_agents_parallel sr invoke agents = collect_results sr (gather invoke agents) ([], [])"

subsection \<open>\<open>TradingGraph._calculate_sentiment\<close> and the average confidence\<close>

definition calculate_sentiment :: "AgentSignal list \<Rightarrow> string" where
  "calculate_sentiment signals =
     (if signals = [] then ''neutral''
      else
        (let bullish = int (length (filter (\<lambda>s. action s = ''bullish'') signals));
             bearish = int (length (filter (\<lambda>s. action s = ''bearish'') signals))
         in if bullish > bearish * 2 then ''very_bullish''
            else if bullish > bearish then ''bullish''
            else if bearish > bullish * 2 then ''very_bearish''
            else if bearish > bullish then ''bearish''
            else ''neutral''))"

text \<open>
  The expression
  \<open>sum(s.confidence for s in signals) / len(signals) if signals else 0\<close>
  of \<open>analyze\<close> and of \<open>quick_signal\<close>.
\<close>

definition avg_confidence :: "AgentSignal list \<Rightarrow> real" where
  "avg_confidence signals =
     (if signals \<noteq> [] then sum_list (map confidence signals) / real (length signals) else 0)"

subsection \<open>\<open>TradingGraph.analyze\<close>\<close>

text \<open>
  Values of the open-ended market data dictionary, with Python's truth value: \<open>None\<close>,
  zero, \<open>False\<close> and the empty string are false.
\<close>

datatype py_value = PyNone | PyBool bool | PyInt int | PyFloat real | PyStr string

fun truthy :: "py_value \<Rightarrow> bool" where
  "truthy PyNone = False"
| "truthy (PyBool b) = b"
| "truthy (PyInt i) = (i \<noteq> 0)"
| "truthy (PyFloat x) = (x \<noteq> 0)"
| "truthy (PyStr s) = (s \<noteq> [])"

type_synonym market_data = "string \<rightharpoonup> py_value"

text \<open>\<open>market_data.get("price")\<close>: \<open>None\<close> when the key is missing.\<close>

definition dict_get :: "market_data \<Rightarrow> string \<Rightarrow> py_value" where
  "dict_get d k = (case d k of None \<Rightarrow> PyNone | Some v \<Rightarrow> v)"

record signal_dict =
  sd_agent :: string
  sd_action :: string
  sd_confidence :: real
  sd_reasoning :: string
  sd_key_metrics :: "string list"
  sd_risks :: "string list"

definition signal_to_dict :: "AgentSignal \<Rightarrow> signal_dict" where
  "signal_to_dict s =
     \<lparr> sd_agent = agent_name s, sd_action = action s, sd_confidence = confidence s,
       sd_reasoning = reasoning s, sd_key_metrics = key_metrics s, sd_risks = risks s \<rparr>"

text \<open>
  The two dictionaries \<open>analyze\<close> can return. The \<open>summary\<close> entry of the bundle is
  formatted text derived from the other entries and is left out.
\<close>

datatype 'd analysis_output =
    Error_result (err_error: string) (err_token: string) (err_chain: string)
  | Bundle (b_token: string) (b_chain: string) (b_market_data: market_data)
      (b_agent_signals: "signal_dict list") (b_risk_assessment: signal_dict)
      (b_final_decision: 'd)

text \<open>
  \<open>analyze\<close>, given what its collaborators deliver during the call: the fetched market
  data, the outcome of each roster strategy, the outcome of the risk manager on the
  aggregate sentiment and average confidence, and the outcome of the portfolio manager
  on the signals and the risk assessment. The two management calls are awaited without a
  handler, so an exception they raise leaves \<open>analyze\<close> (\<open>Inl\<close>). The second component
  is the text printed on the way.
\<close>

definition analyze ::
  "TradingGraph \<Rightarrow> market_data \<Rightarrow> (agent \<Rightarrow> invocation_result)
     \<Rightarrow> (string \<Rightarrow> real \<Rightarrow> string + AgentSignal)
     \<Rightarrow> (AgentSignal list \<Rightarrow> AgentSignal \<Rightarrow> string + 'd)
     \<Rightarrow> string \<Rightarrow> string \<Rightarrow> (string + 'd analysis_output) \<times> string list" where
  "analyze g md invoke risk_analyze synthesize_signals token chain =
     (if \<not> truthy (dict_get md ''price'')
      then (Inr (Error_result (''Could not fetch market data for '' @ token) token chain), [])
      else
        (let (persona_signals, out1) = run_agents_parallel (show_reasoning g) invoke (persona_agents g);
             (crypto_signals, out2) = run_agents_parallel (show_reasoning g) invoke (crypto_agents g);
             all_signals = persona_signals @ crypto_signals;
             out = out1 @ out2
         in case risk_analyze (calculate_sentiment all_signals) (avg_confidence all_signals) of
              Inl e \<Rightarrow> (Inl e, out)
            | Inr risk_assessment \<Rightarrow>
                (case synthesize_signals all_signals risk_assessment of
                   Inl e \<Rightarrow> (Inl e, out)
                 | Inr final_decision \<Rightarrow>
                     (Inr (Bundle token chain md (map signal_to_dict all_signals)
                             (signal_to_dict risk_assessment) final_decision), out))))"

text \<open>The signals \<open>analyze\<close> aggregates (its local \<open>all_signals\<close>).\<close>

definition all_signals :: "TradingGraph \<Rightarrow> (agent \<Rightarrow> invocation_result) \<Rightarrow> AgentSignal list" where
  "all_signals g invoke =
     fst (run_agents_parallel (show_reasoning g) invoke (persona_agents g))
     @ fst (run_agents_parallel (show_reasoning g) invoke (crypto_agents g))"

subsection \<open>\<open>TradingGraph.quick_signal\<close>\<close>

text \<open>
  The quick pipeline; the \<open>quick_take\<close> entry is formatted text and is left out.
\<close>

datatype quick_output =
    Quick_error (qe_error: string) (qe_token: string)
  | Quick_result (q_token: string) (q_price: py_value) (q_change_24h: py_value)
      (q_sentiment: string) (q_confidence: real) (q_signals: "signal_dict list")

definition quick_signal ::
  "TradingGraph \<Rightarrow> market_data \<Rightarrow> (agent \<Rightarrow> invocation_result) \<Rightarrow> string
     \<Rightarrow> quick_output \<times> string list" where
  "quick_signal g md invoke token =
     (if \<not> truthy (dict_get md ''price'')
      then (Quick_error (''No data for '' @ token) token, [])
      else
        (let agents = [DegenAgent, OnChainAnalystAgent, RiskManagerAgent];
             (signals, out) = run_agents_parallel (show_reasoning g) invoke agents;
             sentiment = calculate_sentiment signals;
             avg = avg_confidence signals
         in (Quick_result token (dict_get md ''price'') (dict_get md ''change_24h'')
               sentiment avg (map signal_to_dict signals), out)))"

section \<open>Backtest simulator: \<open>backtesting/engine.py\<close>\<close>

subsection \<open>Floating-point arithmetic and dates\<close>

text \<open>
  The numbers of the engine are binary floating-point values, taken here as the real
  numbers they denote (infinities and NaN are not values of the model). Every operation
  of the engine rounds its result: the rounding \<open>rnd\<close> is a parameter of the model, and so
  are the built-in \<open>sum\<close> over a list of floats and the power operator \<open>**\<close>, whose
  results depend on the interpreter and its mathematical library. Nothing is assumed
  about them, so that what is proved holds for the arithmetic of every platform.
\<close>

record float_arith =
  rnd :: "real \<Rightarrow> real"
  fsum :: "real list \<Rightarrow> real"
  fpow :: "real \<Rightarrow> real \<Rightarrow> real"

definition fadd :: "float_arith \<Rightarrow> real \<Rightarrow> real \<Rightarrow> real" where
  "fadd fa a b = rnd fa (a + b)"

definition fsub :: "float_arith \<Rightarrow> real \<Rightarrow> real \<Rightarrow> real" where
  "fsub fa a b = rnd fa (a - b)"

definition fmul :: "float_arith \<Rightarrow> real \<Rightarrow> real \<Rightarrow> real" where
  "fmul fa a b = rnd fa (a * b)"

text \<open>The exceptions the engine can raise.\<close>

datatype py_error = ZeroDivisionError | OverflowError

text \<open>The operator \<open>/\<close>: it raises on a zero divisor.\<close>

definition py_div :: "float_arith \<Rightarrow> real \<Rightarrow> real \<Rightarrow> py_error + real" where
  "py_div fa a b = (if b = 0 then Inl ZeroDivisionError else Inr (rnd fa (a / b)))"

text \<open>The operator \<open>/\<close> where the divisor is a literal other than zero, or a length known
  to be positive.\<close>

definition fdiv :: "float_arith \<Rightarrow> real \<Rightarrow> real \<Rightarrow> real" where
  "fdiv fa a b = rnd fa (a / b)"

text \<open>
  A naive \<open>datetime\<close> is the number of seconds of its wall-clock reading counted from
  1970-01-01 00:00:00, between \<open>datetime.min\<close> (year 1) and \<open>datetime.max\<close> (the last
  microsecond of year 9999). The difference of two datetimes is exact, and its
  \<open>total_seconds()\<close> is below 3600 exactly when the difference is. Date arithmetic
  raises \<open>OverflowError\<close> outside the range.
\<close>

type_synonym datetime = real

definition datetime_min :: datetime where
  "datetime_min = - 62135596800"

definition datetime_max :: datetime where
  "datetime_max = 253402300800 - 1 / 1000000"

text \<open>\<open>timedelta(days=days)\<close>, in seconds: the magnitude of \<open>days\<close> is at most 999999999.\<close>

definition timedelta_days :: "int \<Rightarrow> py_error + real" where
  "timedelta_days days =
     (if \<bar>days\<bar> \<le> 999999999 then Inr (real_of_int days * 86400) else Inl OverflowError)"

text \<open>\<open>d - delta\<close> for a datetime \<open>d\<close> and a timedelta of \<open>delta\<close> seconds.\<close>

definition datetime_sub :: "datetime \<Rightarrow> real \<Rightarrow> py_error + datetime" where
  "datetime_sub d delta =
     (if datetime_min \<le> d - delta \<and> d - delta \<le> datetime_max then Inr (d - delta)
      else Inl OverflowError)"

subsection \<open>Data model\<close>

record Trade =
  t_token :: string
  t_action :: string
  t_price :: real
  t_size :: real
  t_timestamp :: datetime
  t_signal_confidence :: real
  t_pnl :: real
  t_pnl_pct :: real
  t_closed :: bool
  t_close_price :: "real option"
  t_close_timestamp :: "datetime option"

record candle =
  c_timestamp :: datetime
  c_open :: real
  c_high :: real
  c_low :: real
  c_close :: real

record equity_point =
  ep_timestamp :: datetime
  ep_equity :: real
  ep_price :: real

record BacktestResult =
  res_token :: string
  start_date :: datetime
  end_date :: datetime
  res_initial_balance :: real
  final_balance :: real
  total_pnl :: real
  total_pnl_pct :: real
  total_trades :: nat
  winning_trades :: nat
  losing_trades :: nat
  win_rate :: real
  max_drawdown :: real
  sharpe_ratio :: real
  trades :: "Trade list"
  equity_curve :: "equity_point list"

text \<open>The constructor arguments of \<open>BacktestEngine\<close>.\<close>

record BacktestEngine =
  initial_balance :: real
  position_size_pct :: real
  stop_loss_pct :: real
  take_profit_pct :: real

text \<open>
  One entry of the \<open>signals\<close> argument, a dictionary read with \<open>get\<close>: a missing key is
  \<open>None\<close> here. The timestamps are naive datetimes, as those of the candles are.
\<close>

record bt_signal =
  s_timestamp :: "datetime option"
  s_action :: "string option"
  s_confidence :: "real option"

subsection \<open>\<open>BacktestEngine.fetch_historical_data\<close>\<close>

text \<open>
  What the HTTP request can deliver: an exception of the client, or a response with a
  status code whose body is a list of numeric rows (\<open>None\<close>: \<open>response.json()\<close> raised,
  or the body has another shape, which raises inside the comprehension).
\<close>

datatype http_outcome =
    Request_failed
  | Http_response (status_code: int) (json_body: "real list list option")

text \<open>
  One row of the body. \<open>datetime.fromtimestamp\<close> is a parameter: it gives the local
  wall-clock datetime of an instant in seconds since the epoch, and \<open>None\<close> where it
  raises (an instant outside the range of the platform or of \<open>datetime\<close>). A row with
  fewer than five entries raises \<open>IndexError\<close>.
\<close>

definition candle_of_row ::
  "float_arith \<Rightarrow> (real \<Rightarrow> datetime option) \<Rightarrow> real list \<Rightarrow> candle option" where
  "candle_of_row fa fromtimestamp d =
     (if 5 \<le> length d
      then (case fromtimestamp (fdiv fa (d ! 0) 1000) of
              None \<Rightarrow> None
            | Some ts \<Rightarrow>
                Some \<lparr> c_timestamp = ts, c_open = d ! 1, c_high = d ! 2,
                       c_low = d ! 3, c_close = d ! 4 \<rparr>)
      else None)"

fun candles_of_rows ::
  "float_arith \<Rightarrow> (real \<Rightarrow> datetime option) \<Rightarrow> real list list \<Rightarrow> candle list option" where
  "candles_of_rows fa fromtimestamp [] = Some []"
| "candles_of_rows fa fromtimestamp (d # ds) =
     (case candle_of_row fa fromtimestamp d of
        None \<Rightarrow> None
      | Some c \<Rightarrow>
          (case candles_of_rows fa fromtimestamp ds of
             None \<Rightarrow> None
           | Some cs \<Rightarrow> Some (c # cs)))"

text \<open>Every exception inside the \<open>try\<close> block gives the empty list.\<close>

definition fetch_historical_data ::
  "float_arith \<Rightarrow> (real \<Rightarrow> datetime option) \<Rightarrow> http_outcome \<Rightarrow> candle list" where
  "fetch_historical_data fa fromtimestamp r =
     (case r of
        Request_failed \<Rightarrow> []
      | Http_response st body \<Rightarrow>
          if st \<noteq> 200 then []
          else (case body of
                  None \<Rightarrow> []
                | Some rows \<Rightarrow>
                    (case candles_of_rows fa fromtimestamp rows of
                       None \<Rightarrow> []
                     | Some cs \<Rightarrow> cs)))"

subsection \<open>The simulation loop of \<open>BacktestEngine.run_backtest\<close>\<close>

text \<open>The local variables the loop updates.\<close>

record loop_state =
  balance :: real
  position :: "Trade option"
  st_trades :: "Trade list"
  st_equity_curve :: "equity_point list"
  peak_balance :: real

definition init_state :: "BacktestEngine \<Rightarrow> loop_state" where
  "init_state e =
     \<lparr> balance = initial_balance e, position = None, st_trades = [],
       st_equity_curve = [], peak_balance = initial_balance e \<rparr>"

text \<open>
  The unrealized return in percent, as lines 148 to 151 and 198 to 201 compute it: a
  difference, a quotient and a product, each rounded. With binary64 rounding an entry
  price of 100 and a bar at 129 give 28.999999999999996, not 29.
\<close>

definition unrealized_pnl_pct :: "float_arith \<Rightarrow> Trade \<Rightarrow> real \<Rightarrow> py_error + real" where
  "unrealized_pnl_pct fa pos current_price =
     (if t_action pos = ''buy''
      then (case py_div fa (fsub fa current_price (t_price pos)) (t_price pos) of
              Inl err \<Rightarrow> Inl err | Inr q \<Rightarrow> Inr (fmul fa q 100))
      else (case py_div fa (fsub fa (t_price pos) current_price) (t_price pos) of
              Inl err \<Rightarrow> Inl err | Inr q \<Rightarrow> Inr (fmul fa q 100)))"

text \<open>The branch of the \<open>if\<close>/\<open>elif\<close> of lines 154 and 165 that a return selects.\<close>

datatype exit_kind = Stop_loss | Take_profit

definition exit_branch :: "BacktestEngine \<Rightarrow> real \<Rightarrow> exit_kind option" where
  "exit_branch e u =
     (if u \<le> - stop_loss_pct e then Some Stop_loss
      else if u \<ge> take_profit_pct e then Some Take_profit
      else None)"

text \<open>The five assignments that close a position.\<close>

definition close_trade :: "float_arith \<Rightarrow> Trade \<Rightarrow> real \<Rightarrow> datetime \<Rightarrow> real \<Rightarrow> Trade" where
  "close_trade fa pos current_price ts u =
     pos\<lparr> t_closed := True, t_close_price := Some current_price,
          t_close_timestamp := Some ts, t_pnl_pct := u,
          t_pnl := fmul fa (t_size pos) (fdiv fa u 100) \<rparr>"

definition check_exit ::
  "float_arith \<Rightarrow> BacktestEngine \<Rightarrow> candle \<Rightarrow> loop_state \<Rightarrow> py_error + loop_state" where
  "check_exit fa e c st =
     (case position st of
        None \<Rightarrow> Inr st
      | Some pos \<Rightarrow>
          (case unrealized_pnl_pct fa pos (c_close c) of
             Inl err \<Rightarrow> Inl err
           | Inr u \<Rightarrow>
               (case exit_branch e u of
                  Some Stop_loss \<Rightarrow>
                    (let closed = close_trade fa pos (c_close c) (c_timestamp c) u
                     in Inr (st\<lparr> balance :=
                                    fadd fa (balance st) (fadd fa (t_size closed) (t_pnl closed)),
                                  st_trades := st_trades st @ [closed],
                                  position := None \<rparr>))
                | Some Take_profit \<Rightarrow>
                    (let closed = close_trade fa pos (c_close c) (c_timestamp c) u
                     in Inr (st\<lparr> balance :=
                                    fadd fa (balance st) (fadd fa (t_size closed) (t_pnl closed)),
                                  st_trades := st_trades st @ [closed],
                                  position := None \<rparr>))
                | None \<Rightarrow> Inr st)))"

text \<open>\<open>str.lower\<close> on ASCII text.\<close>

definition lower_char :: "char \<Rightarrow> char" where
  "lower_char ch =
     (case map_of (zip ''ABCDEFGHIJKLMNOPQRSTUVWXYZ'' ''abcdefghijklmnopqrstuvwxyz'') ch of
        None \<Rightarrow> ch
      | Some l \<Rightarrow> l)"

definition lower :: "string \<Rightarrow> string" where
  "lower s = map lower_char s"

text \<open>The body of the loop over \<open>signals\<close> (lines 177 to 193) for one signal.\<close>

definition signal_step ::
  "float_arith \<Rightarrow> BacktestEngine \<Rightarrow> string \<Rightarrow> candle \<Rightarrow> bt_signal \<Rightarrow> loop_state
     \<Rightarrow> loop_state" where
  "signal_step fa e token_id c s st =
     (case s_timestamp s of
        None \<Rightarrow> st
      | Some signal_time \<Rightarrow>
          if \<bar>signal_time - c_timestamp c\<bar> < 3600
          then
            (let act = lower (case s_action s of None \<Rightarrow> [] | Some a \<Rightarrow> a);
                 conf = (case s_confidence s of None \<Rightarrow> 50 | Some x \<Rightarrow> x)
             in if conf \<ge> 60 \<and> act \<in> set [''buy'', ''bullish''] \<and> position st = None
                then
                  (let size = fmul fa (balance st) (fdiv fa (position_size_pct e) 100)
                   in st\<lparr> position :=
                             Some \<lparr> t_token = token_id, t_action = ''buy'',
                                    t_price = c_close c, t_size = size,
                                    t_timestamp = c_timestamp c, t_signal_confidence = conf,
                                    t_pnl = 0, t_pnl_pct = 0, t_closed = False,
                                    t_close_price = None, t_close_timestamp = None \<rparr>,
                           balance := fsub fa (balance st) size \<rparr>)
                else st)
          else st)"

fun scan_signals ::
  "float_arith \<Rightarrow> BacktestEngine \<Rightarrow> string \<Rightarrow> candle \<Rightarrow> bt_signal list \<Rightarrow> loop_state
     \<Rightarrow> loop_state" where
  "scan_signals fa e token_id c [] st = st"
| "scan_signals fa e token_id c (s # ss) st =
     scan_signals fa e token_id c ss (signal_step fa e token_id c s st)"

text \<open>Lines 195 to 212: the equity point of the bar and the running peak.\<close>

definition track_equity :: "float_arith \<Rightarrow> candle \<Rightarrow> loop_state \<Rightarrow> py_error + loop_state" where
  "track_equity fa c st =
     (case (case position st of
              None \<Rightarrow> Inr (balance st)
            | Some pos \<Rightarrow>
                (case unrealized_pnl_pct fa pos (c_close c) of
                   Inl err \<Rightarrow> Inl err
                 | Inr pnl_pct \<Rightarrow>
                     Inr (fadd fa (balance st)
                            (fmul fa (t_size pos) (fadd fa 1 (fdiv fa pnl_pct 100)))))) of
        Inl err \<Rightarrow> Inl err
      | Inr current_equity \<Rightarrow>
          Inr (st\<lparr> st_equity_curve :=
                     st_equity_curve st
                       @ [\<lparr> ep_timestamp = c_timestamp c, ep_equity = current_equity,
                             ep_price = c_close c \<rparr>],
                   peak_balance :=
                     (if current_equity > peak_balance st then current_equity
                      else peak_balance st) \<rparr>))"

text \<open>One iteration of the loop over the candles.\<close>

definition process_candle ::
  "float_arith \<Rightarrow> BacktestEngine \<Rightarrow> string \<Rightarrow> bt_signal list \<Rightarrow> candle \<Rightarrow> loop_state
     \<Rightarrow> py_error + loop_state" where
  "process_candle fa e token_id signals c st =
     (case check_exit fa e c st of
        Inl err \<Rightarrow> Inl err
      | Inr st1 \<Rightarrow> track_equity fa c (scan_signals fa e token_id c signals st1))"

fun run_loop ::
  "float_arith \<Rightarrow> BacktestEngine \<Rightarrow> string \<Rightarrow> bt_signal list \<Rightarrow> candle list \<Rightarrow> loop_state
     \<Rightarrow> py_error + loop_state" where
  "run_loop fa e token_id signals [] st = Inr st"
| "run_loop fa e token_id signals (c # cs) st =
     (case process_candle fa e token_id signals c st of
        Inl err \<Rightarrow> Inl err
      | Inr st' \<Rightarrow> run_loop fa e token_id signals cs st')"

subsection \<open>After the loop\<close>

text \<open>
  Lines 214 to 228: the balance and the trade list after a position that is still open
  has been closed at the last candle.
\<close>

definition close_remaining ::
  "float_arith \<Rightarrow> candle list \<Rightarrow> loop_state \<Rightarrow> py_error + real \<times> Trade list" where
  "close_remaining fa candles st =
     (case position st of
        None \<Rightarrow> Inr (balance st, st_trades st)
      | Some pos \<Rightarrow>
          (let final_price = c_close (last candles)
           in case unrealized_pnl_pct fa pos final_price of
                Inl err \<Rightarrow> Inl err
              | Inr pnl_pct \<Rightarrow>
                  (let closed =
                         close_trade fa pos final_price (c_timestamp (last candles)) pnl_pct
                   in Inr (fadd fa (balance st) (fadd fa (t_size closed) (t_pnl closed)),
                           st_trades st @ [closed]))))"

definition winning_of :: "Trade list \<Rightarrow> Trade list" where
  "winning_of ts = filter (\<lambda>t. t_pnl t > 0) ts"

definition losing_of :: "Trade list \<Rightarrow> Trade list" where
  "losing_of ts = filter (\<lambda>t. t_pnl t \<le> 0) ts"

text \<open>Line 233: the quotient of two lengths, rounded, times 100, rounded.\<close>

definition win_rate_of :: "float_arith \<Rightarrow> Trade list \<Rightarrow> real" where
  "win_rate_of fa ts =
     (if ts \<noteq> []
      then fmul fa (fdiv fa (real (length (winning_of ts))) (real (length ts))) 100
      else 0)"

fun max_drawdown_loop ::
  "float_arith \<Rightarrow> equity_point list \<Rightarrow> real \<times> real \<Rightarrow> py_error + real" where
  "max_drawdown_loop fa [] (max_dd, peak) = Inr max_dd"
| "max_drawdown_loop fa (point # rest) (max_dd, peak) =
     (let peak' = (if ep_equity point > peak then ep_equity point else peak)
      in case py_div fa (fsub fa peak' (ep_equity point)) peak' of
           Inl err \<Rightarrow> Inl err
         | Inr q \<Rightarrow>
             (let dd = fmul fa q 100
              in max_drawdown_loop fa rest (if dd > max_dd then dd else max_dd, peak')))"

fun period_returns :: "float_arith \<Rightarrow> equity_point list \<Rightarrow> py_error + real list" where
  "period_returns fa (p # q # rest) =
     (case py_div fa (fsub fa (ep_equity q) (ep_equity p)) (ep_equity p) of
        Inl err \<Rightarrow> Inl err
      | Inr ret \<Rightarrow>
          (case period_returns fa (q # rest) of
             Inl err \<Rightarrow> Inl err
           | Inr rets \<Rightarrow> Inr (ret # rets)))"
| "period_returns fa [p] = Inr []"
| "period_returns fa [] = Inr []"

text \<open>Lines 251 to 256.\<close>

definition sharpe_of :: "float_arith \<Rightarrow> real list \<Rightarrow> real" where
  "sharpe_of fa returns =
     (if returns \<noteq> []
      then
        (let avg_return = fdiv fa (fsum fa returns) (real (length returns));
             std_return =
               fpow fa
                 (fdiv fa (fsum fa (map (\<lambda>r. fpow fa (fsub fa r avg_return) 2) returns))
                    (real (length returns)))
                 (1 / 2)
         in if std_return > 0
            then fmul fa (fdiv fa avg_return std_return) (fpow fa 252 (1 / 2))
            else 0)
      else 0)"

subsection \<open>\<open>BacktestEngine.run_backtest\<close>\<close>

text \<open>
  The whole run, given the arithmetic, the conversion of timestamps, the outcome of the
  HTTP request and the two readings of the clock (\<open>datetime.now()\<close> is called twice on
  the path without data). On that path line 120 subtracts \<open>timedelta(days=days)\<close> from
  the first reading, which raises when the days or the resulting date are out of range.
\<close>

definition run_backtest ::
  "float_arith \<Rightarrow> BacktestEngine \<Rightarrow> string \<Rightarrow> bt_signal list \<Rightarrow> int \<Rightarrow> datetime \<Rightarrow> datetime
     \<Rightarrow> (real \<Rightarrow> datetime option) \<Rightarrow> http_outcome \<Rightarrow> py_error + BacktestResult" where
  "run_backtest fa e token_id signals days now1 now2 fromtimestamp response =
     (let candles = fetch_historical_data fa fromtimestamp response
      in if candles = []
         then
           (case timedelta_days days of
              Inl err \<Rightarrow> Inl err
            | Inr delta \<Rightarrow>
                (case datetime_sub now1 delta of
                   Inl err \<Rightarrow> Inl err
                 | Inr start \<Rightarrow>
                     Inr \<lparr> res_token = token_id,
                           start_date = start,
                           end_date = now2,
                           res_initial_balance = initial_balance e,
                           final_balance = initial_balance e,
                           total_pnl = 0, total_pnl_pct = 0,
                           total_trades = 0, winning_trades = 0, losing_trades = 0,
                           win_rate = 0, max_drawdown = 0, sharpe_ratio = 0,
                           trades = [], equity_curve = [] \<rparr>))
         else
           (case run_loop fa e token_id signals candles (init_state e) of
              Inl err \<Rightarrow> Inl err
            | Inr st \<Rightarrow>
                (case close_remaining fa candles st of
                   Inl err \<Rightarrow> Inl err
                 | Inr (bal, ts) \<Rightarrow>
                     (case max_drawdown_loop fa (st_equity_curve st) (0, initial_balance e) of
                        Inl err \<Rightarrow> Inl err
                      | Inr max_dd \<Rightarrow>
                          (case period_returns fa (st_equity_curve st) of
                             Inl err \<Rightarrow> Inl err
                           | Inr returns \<Rightarrow>
                               (case py_div fa (fsub fa bal (initial_balance e))
                                       (initial_balance e) of
                                  Inl err \<Rightarrow> Inl err
                                | Inr q \<Rightarrow>
                                    Inr \<lparr> res_token = token_id,
                                          start_date = c_timestamp (hd candles),
                                          end_date = c_timestamp (last candles),
                                          res_initial_balance = initial_balance e,
                                          final_balance = bal,
                                          total_pnl = fsub fa bal (initial_balance e),
                                          total_pnl_pct = fmul fa q 100,
                                          total_trades = length ts,
                                          winning_trades = length (winning_of ts),
                                          losing_trades = length (losing_of ts),
                                          win_rate = win_rate_of fa ts,
                                          max_drawdown = max_dd,
                                          sharpe_ratio = sharpe_of fa returns,
                                          trades = ts,
                                          equity_curve = st_equity_curve st \<rparr>))))))"

section \<open>Auxiliary notions used in the statements\<close>

text \<open>The signal of a successful invocation.\<close>

definition successful_signal :: "invocation_result \<Rightarrow> AgentSignal option" where
  "successful_signal r = (case r of Returned_signal s \<Rightarrow> Some s | _ \<Rightarrow> None)"

text \<open>The number of signals with a given action.\<close>

definition count_action :: "string \<Rightarrow> AgentSignal list \<Rightarrow> int" where
  "count_action a signals = int (length (filter (\<lambda>s. action s = a) signals))"

text \<open>Concrete inputs for the examples below.\<close>

definition example_signal :: "string \<Rightarrow> real \<Rightarrow> AgentSignal" where
  "example_signal a c =
     \<lparr> agent_name = ''agent'', action = a, confidence = c, reasoning = [],
       key_metrics = [], risks = [], data_used = [] \<rparr>"

definition example_invoke :: "agent \<Rightarrow> invocation_result" where
  "example_invoke a =
     (case a of
        WarrenBuffettAgent \<Rightarrow> Returned_signal (example_signal ''bullish'' 80)
      | MichaelBurryAgent \<Rightarrow> Raised_exception ''timeout''
      | DegenAgent \<Rightarrow> Returned_signal (example_signal ''bearish'' 60)
      | SolanaSpecialistAgent \<Rightarrow> Returned_other
      | _ \<Rightarrow> Returned_signal (example_signal ''neutral'' 50))"

definition example_risk :: "string \<Rightarrow> real \<Rightarrow> string + AgentSignal" where
  "example_risk sentiment avg = Inr (example_signal ''neutral'' avg)"

definition example_synthesize :: "AgentSignal list \<Rightarrow> AgentSignal \<Rightarrow> string + string" where
  "example_synthesize signals risk = Inr ''hold''"

definition zero_price_data :: market_data where
  "zero_price_data = [''price'' \<mapsto> PyFloat 0]"

definition priced_data :: market_data where
  "priced_data = [''price'' \<mapsto> PyFloat 2]"

text \<open>The trades of a loop state that are not closed, the open position included.\<close>

definition open_trades :: "loop_state \<Rightarrow> Trade list" where
  "open_trades st =
     filter (\<lambda>t. \<not> t_closed t)
       (st_trades st @ (case position st of None \<Rightarrow> [] | Some p \<Rightarrow> [p]))"

text \<open>The test a signal passes to open a position at a candle (lines 178 to 183).\<close>

definition qualifies :: "candle \<Rightarrow> bt_signal \<Rightarrow> bool" where
  "qualifies c s =
     (case s_timestamp s of
        None \<Rightarrow> False
      | Some signal_time \<Rightarrow>
          \<bar>signal_time - c_timestamp c\<bar> < 3600
          \<and> (case s_confidence s of None \<Rightarrow> 50 | Some x \<Rightarrow> x) \<ge> 60
          \<and> lower (case s_action s of None \<Rightarrow> [] | Some a \<Rightarrow> a) \<in> set [''buy'', ''bullish''])"

text \<open>The state after a position has been opened at a candle (lines 184 to 193).\<close>

definition open_position ::
  "float_arith \<Rightarrow> BacktestEngine \<Rightarrow> string \<Rightarrow> candle \<Rightarrow> real \<Rightarrow> loop_state \<Rightarrow> loop_state" where
  "open_position fa e token_id c conf st =
     st\<lparr> position :=
           Some \<lparr> t_token = token_id, t_action = ''buy'', t_price = c_close c,
                  t_size = fmul fa (balance st) (fdiv fa (position_size_pct e) 100),
                  t_timestamp = c_timestamp c, t_signal_confidence = conf,
                  t_pnl = 0, t_pnl_pct = 0, t_closed = False,
                  t_close_price = None, t_close_timestamp = None \<rparr>,
         balance :=
           fsub fa (balance st) (fmul fa (balance st) (fdiv fa (position_size_pct e) 100)) \<rparr>"

text \<open>A loop state is well formed when its recorded trades are closed and its position is not.\<close>

definition well_formed :: "loop_state \<Rightarrow> bool" where
  "well_formed st =
     (list_all t_closed (st_trades st)
      \<and> (case position st of None \<Rightarrow> True | Some p \<Rightarrow> \<not> t_closed p))"

text \<open>
  The arithmetic of the examples. Their prices, sizes and percentages are chosen so that
  every difference, sum, product and quotient the engine forms on them is a dyadic
  fraction of a few digits, hence a floating-point value that rounding leaves as it is;
  the squares and the square roots taken are of such values too. The one inexact power,
  the square root of 252, is multiplied by zero where it is taken.
\<close>

definition exact_pow :: "real \<Rightarrow> real \<Rightarrow> real" where
  "exact_pow x y = (if y = 2 then x * x else if y = 1 / 2 then sqrt x else x powr y)"

definition exact_arith :: float_arith where
  "exact_arith = \<lparr> rnd = (\<lambda>x. x), fsum = sum_list, fpow = exact_pow \<rparr>"

text \<open>
  The conversion of the examples: a platform whose local time is UTC, on the instants
  of the years 1970 to 2999; any other instant is refused. The examples use whole
  seconds of the first day of 1970 and one instant far beyond the range.
\<close>

definition utc_fromtimestamp :: "real \<Rightarrow> datetime option" where
  "utc_fromtimestamp t = (if 0 \<le> t \<and> t < 32503680000 then Some t else None)"

text \<open>An engine, and the state after it has opened a position at a first bar at 64.\<close>

definition example_engine :: BacktestEngine where
  "example_engine =
     \<lparr> initial_balance = 10000, position_size_pct = 25, stop_loss_pct = 5,
       take_profit_pct = 50 \<rparr>"

definition example_position :: Trade where
  "example_position =
     \<lparr> t_token = ''solana'', t_action = ''buy'', t_price = 64, t_size = 2500,
       t_timestamp = 0, t_signal_confidence = 80, t_pnl = 0, t_pnl_pct = 0,
       t_closed = False, t_close_price = None, t_close_timestamp = None \<rparr>"

definition example_open_state :: loop_state where
  "example_open_state =
     \<lparr> balance = 7500, position = Some example_position, st_trades = [],
       st_equity_curve = [\<lparr> ep_timestamp = 0, ep_equity = 10000, ep_price = 64 \<rparr>],
       peak_balance = 10000 \<rparr>"


definition falling_candle :: candle where
  "falling_candle =
     \<lparr> c_timestamp = 14400, c_open = 64, c_high = 64, c_low = 48, c_close = 48 \<rparr>"


definition buy_signal :: bt_signal where
  "buy_signal = \<lparr> s_timestamp = Some 0, s_action = Some ''buy'', s_confidence = Some 80 \<rparr>"

definition late_bullish_signal :: bt_signal where
  "late_bullish_signal =
     \<lparr> s_timestamp = Some 16200, s_action = Some ''BULLISH'', s_confidence = Some 75 \<rparr>"

text \<open>
  Three responses with their expected results: two bars and one winning trade; three
  bars with a stop-loss exit and an entry at the second bar; two flat bars.
\<close>

definition two_bar_response :: http_outcome where
  "two_bar_response =
     Http_response 200 (Some [[0, 64, 64, 64, 64], [14400000, 64, 80, 64, 80]])"

definition three_bar_response :: http_outcome where
  "three_bar_response =
     Http_response 200
       (Some [[0, 64, 64, 64, 64], [14400000, 64, 64, 48, 48],
              [28800000, 48, 60, 48, 60]])"

definition flat_response :: http_outcome where
  "flat_response =
     Http_response 200 (Some [[0, 64, 64, 64, 64], [14400000, 64, 64, 64, 64]])"

definition first_trade_closed :: Trade where
  "first_trade_closed =
     \<lparr> t_token = ''solana'', t_action = ''buy'', t_price = 64, t_size = 2500,
       t_timestamp = 0, t_signal_confidence = 80, t_pnl = - 625, t_pnl_pct = - 25,
       t_closed = True, t_close_price = Some 48, t_close_timestamp = Some 14400 \<rparr>"

definition second_position :: Trade where
  "second_position =
     \<lparr> t_token = ''solana'', t_action = ''buy'', t_price = 48, t_size = 9375 / 4,
       t_timestamp = 14400, t_signal_confidence = 75, t_pnl = 0, t_pnl_pct = 0,
       t_closed = False, t_close_price = None, t_close_timestamp = None \<rparr>"

definition two_bar_result :: BacktestResult where
  "two_bar_result =
     \<lparr> res_token = ''solana'', start_date = 0, end_date = 14400,
       res_initial_balance = 10000, final_balance = 10625, total_pnl = 625,
       total_pnl_pct = 25 / 4, total_trades = 1, winning_trades = 1, losing_trades = 0,
       win_rate = 100, max_drawdown = 0, sharpe_ratio = 0,
       trades = [example_position
                   \<lparr> t_closed := True, t_close_price := Some 80,
                     t_close_timestamp := Some 14400, t_pnl_pct := 25, t_pnl := 625 \<rparr>],
       equity_curve = [\<lparr> ep_timestamp = 0, ep_equity = 10000, ep_price = 64 \<rparr>,
                       \<lparr> ep_timestamp = 14400, ep_equity = 10625, ep_price = 80 \<rparr>] \<rparr>"

definition three_bar_result :: BacktestResult where
  "three_bar_result =
     \<lparr> res_token = ''solana'', start_date = 0, end_date = 28800,
       res_initial_balance = 10000, final_balance = 159375 / 16, total_pnl = - (625 / 16),
       total_pnl_pct = - (25 / 64), total_trades = 2, winning_trades = 1,
       losing_trades = 1, win_rate = 50, max_drawdown = 25 / 4, sharpe_ratio = 0,
       trades = [first_trade_closed,
                 second_position
                   \<lparr> t_closed := True, t_close_price := Some 60,
                     t_close_timestamp := Some 28800, t_pnl_pct := 25,
                     t_pnl := 9375 / 16 \<rparr>],
       equity_curve = [\<lparr> ep_timestamp = 0, ep_equity = 10000, ep_price = 64 \<rparr>,
                       \<lparr> ep_timestamp = 14400, ep_equity = 9375, ep_price = 48 \<rparr>,
                       \<lparr> ep_timestamp = 28800, ep_equity = 159375 / 16, ep_price = 60 \<rparr>] \<rparr>"

section \<open>Properties of the orchestrator\<close>

subsection \<open>Helper facts\<close>

lemma collect_results_signals:
  "fst (collect_results sr rs (signals, out)) = signals @ List.map_filter successful_signal rs"
proof (induction rs arbitrary: signals out)
  case Nil
  show ?case by simp
next
  case (Cons r rs)
  show ?case
    by (cases r) (simp_all add: Cons.IH successful_signal_def)
qed

lemma run_agents_parallel_signals:
  "fst (run_agents_parallel sr invoke agents)
     = List.map_filter (\<lambda>a. successful_signal (invoke a)) agents"
  by (simp add: run_agents_parallel_def gather_def collect_results_signals
        List.map_filter_def comp_def filter_map)

lemma map_filter_append:
  "List.map_filter f (xs @ ys) = List.map_filter f xs @ List.map_filter f ys"
  by (simp add: List.map_filter_def)

lemma analyze_result:
  "truthy (dict_get md ''price'') \<Longrightarrow>
   fst (analyze g md invoke ra syn token chain) =
     (case ra (calculate_sentiment (all_signals g invoke)) (avg_confidence (all_signals g invoke)) of
        Inl e \<Rightarrow> Inl e
      | Inr risk \<Rightarrow>
          (case syn (all_signals g invoke) risk of
             Inl e \<Rightarrow> Inl e
           | Inr dec \<Rightarrow>
               Inr (Bundle token chain md (map signal_to_dict (all_signals g invoke))
                      (signal_to_dict risk) dec)))"
  by (simp add: analyze_def all_signals_def Let_def split_beta split: sum.splits)

lemma quick_signal_result:
  "truthy (dict_get md ''price'') \<Longrightarrow>
   fst (quick_signal g md invoke token) =
     (let signals = fst (run_agents_parallel (show_reasoning g) invoke
                           [DegenAgent, OnChainAnalystAgent, RiskManagerAgent])
      in Quick_result token (dict_get md ''price'') (dict_get md ''change_24h'')
           (calculate_sentiment signals) (avg_confidence signals)
           (map signal_to_dict signals))"
  by (simp add: quick_signal_def Let_def split_beta)

subsection \<open>Aggregate sentiment\<close>

text \<open>
  Claim C1. For every list of signals, with \<open>b\<close> the number of signals whose action is
  \<open>bullish\<close> and \<open>r\<close> the number whose action is \<open>bearish\<close>, the aggregate sentiment is
  \<open>very_bullish\<close> when \<open>b > 2r\<close>, otherwise \<open>bullish\<close> when \<open>b > r\<close>, otherwise
  \<open>very_bearish\<close> when \<open>r > 2b\<close>, otherwise \<open>bearish\<close> when \<open>r > b\<close>, otherwise
  \<open>neutral\<close>. The early return on the empty list agrees with the last case.
\<close>

theorem calculate_sentiment_classification:
  "calculate_sentiment signals =
     (let b = count_action ''bullish'' signals; r = count_action ''bearish'' signals
      in if b > 2 * r then ''very_bullish''
         else if b > r then ''bullish''
         else if r > 2 * b then ''very_bearish''
         else if r > b then ''bearish''
         else ''neutral'')"
  by (simp add: calculate_sentiment_def count_action_def Let_def mult.commute)

text \<open>
  The examples of the claim: 3 against 1, 2 against 1, 1 against 1, 1 against 3, a
  balanced list with a neutral signal, and the empty list.
\<close>

theorem calculate_sentiment_classification_witness:
  "calculate_sentiment [example_signal ''bullish'' 70, example_signal ''bearish'' 40,
       example_signal ''bullish'' 55, example_signal ''bullish'' 90] = ''very_bullish''
   \<and> calculate_sentiment [example_signal ''bullish'' 70, example_signal ''bearish'' 40,
       example_signal ''bullish'' 55] = ''bullish''
   \<and> calculate_sentiment [example_signal ''bullish'' 70, example_signal ''bearish'' 40] = ''neutral''
   \<and> calculate_sentiment [example_signal ''bearish'' 70, example_signal ''bearish'' 40,
       example_signal ''bullish'' 55, example_signal ''bearish'' 90] = ''very_bearish''
   \<and> calculate_sentiment [example_signal ''bearish'' 70, example_signal ''bearish'' 40,
       example_signal ''bullish'' 55, example_signal ''neutral'' 90, example_signal ''bullish'' 10] = ''neutral''
   \<and> calculate_sentiment [] = ''neutral''"
  using calculate_sentiment_classification
          [of "[example_signal ''bullish'' 70, example_signal ''bearish'' 40,
                example_signal ''bullish'' 55, example_signal ''bullish'' 90]"]
        calculate_sentiment_classification
          [of "[example_signal ''bullish'' 70, example_signal ''bearish'' 40,
                example_signal ''bullish'' 55]"]
        calculate_sentiment_classification
          [of "[example_signal ''bullish'' 70, example_signal ''bearish'' 40]"]
        calculate_sentiment_classification
          [of "[example_signal ''bearish'' 70, example_signal ''bearish'' 40,
                example_signal ''bullish'' 55, example_signal ''bearish'' 90]"]
        calculate_sentiment_classification
          [of "[example_signal ''bearish'' 70, example_signal ''bearish'' 40,
       example_signal ''bullish'' 55, example_signal ''neutral'' 90, example_signal ''bullish'' 10]"]
        calculate_sentiment_classification [of "[]"]
  by (simp add: count_action_def example_signal_def)

subsection \<open>Roster per mode\<close>

text \<open>
  Claim C2. The constructed roster has 5 persona and 5 crypto strategies in mode
  \<open>full\<close> (12 with the management pair), 2 and 4 in mode \<open>fast\<close> (8), 2 and 3 in mode
  \<open>degen\<close> (7); the risk assessor and the decision synthesizer are present whatever
  the mode.
\<close>

theorem roster_sizes:
  "length (persona_agents (post_init ''full'' sr)) = 5
   \<and> length (crypto_agents (post_init ''full'' sr)) = 5
   \<and> roster_total (post_init ''full'' sr) = 12
   \<and> length (persona_agents (post_init ''fast'' sr)) = 2
   \<and> length (crypto_agents (post_init ''fast'' sr)) = 4
   \<and> roster_total (post_init ''fast'' sr) = 8
   \<and> length (persona_agents (post_init ''degen'' sr)) = 2
   \<and> length (crypto_agents (post_init ''degen'' sr)) = 3
   \<and> roster_total (post_init ''degen'' sr) = 7
   \<and> management_agents (post_init m sr) ''risk'' = Some RiskManagerAgent
   \<and> management_agents (post_init m sr) ''portfolio'' = Some PortfolioManagerAgent
   \<and> card (dom (management_agents (post_init m sr))) = 2"
  by (simp add: post_init_def roster_total_def Let_def)

subsection \<open>The failure-tolerant join\<close>

text \<open>
  Claim C3. The join returns exactly the signals of the successful invocations, in
  roster order: every other result is dropped and changes nothing about the signals of
  the siblings. The signals \<open>analyze\<close> aggregates and returns are those of the persona
  roster followed by those of the crypto roster. Each strategy is invoked once: the
  result list has one entry per roster member.
\<close>

theorem parallel_join_keeps_successes_in_order:
  "fst (run_agents_parallel sr invoke agents)
     = List.map_filter (\<lambda>a. successful_signal (invoke a)) agents
   \<and> all_signals g invoke
     = List.map_filter (\<lambda>a. successful_signal (invoke a)) (persona_agents g @ crypto_agents g)
   \<and> (\<forall>out. fst (analyze g md invoke ra syn token chain) = Inr out \<and> truthy (dict_get md ''price'')
         \<longrightarrow> b_agent_signals out
              = map signal_to_dict
                  (List.map_filter (\<lambda>a. successful_signal (invoke a))
                     (persona_agents g @ crypto_agents g)))"
proof -
  have a: "all_signals g invoke
     = List.map_filter (\<lambda>a. successful_signal (invoke a)) (persona_agents g @ crypto_agents g)"
    by (simp add: all_signals_def run_agents_parallel_signals map_filter_append)
  have b: "b_agent_signals out = map signal_to_dict (all_signals g invoke)"
    if "fst (analyze g md invoke ra syn token chain) = Inr out" "truthy (dict_get md ''price'')" for out
    using that by (auto simp: analyze_result split: sum.splits)
  show ?thesis
    using a b by (simp add: run_agents_parallel_signals)
qed

text \<open>
  A roster with a raising strategy and one that returns no signal, and a complete run of
  \<open>analyze\<close> in mode \<open>fast\<close>.
\<close>

theorem parallel_join_keeps_successes_in_order_witness:
  "fst (run_agents_parallel True example_invoke
          [WarrenBuffettAgent, MichaelBurryAgent, DegenAgent, SolanaSpecialistAgent, WhaleWatcherAgent])
     = [example_signal ''bullish'' 80, example_signal ''bearish'' 60, example_signal ''neutral'' 50]
   \<and> truthy (dict_get priced_data ''price'')
   \<and> fst (analyze (post_init ''fast'' True) priced_data example_invoke example_risk
            example_synthesize ''SOL'' ''solana'')
       = Inr (Bundle ''SOL'' ''solana'' priced_data
                (map signal_to_dict
                   [example_signal ''bullish'' 80, example_signal ''bearish'' 60,
                    example_signal ''neutral'' 50, example_signal ''neutral'' 50])
                (signal_to_dict (example_signal ''neutral'' 60)) ''hold'')
   \<and> b_agent_signals (Bundle ''SOL'' ''solana'' priced_data
                (map signal_to_dict
                   [example_signal ''bullish'' 80, example_signal ''bearish'' 60,
                    example_signal ''neutral'' 50, example_signal ''neutral'' 50])
                (signal_to_dict (example_signal ''neutral'' 60)) ''hold'')
       = map signal_to_dict
           (List.map_filter (\<lambda>a. successful_signal (example_invoke a))
              (persona_agents (post_init ''fast'' True) @ crypto_agents (post_init ''fast'' True)))"
proof -
  have t: "truthy (dict_get priced_data ''price'')"
    by (simp add: priced_data_def dict_get_def)
  have r: "fst (analyze (post_init ''fast'' True) priced_data example_invoke example_risk
            example_synthesize ''SOL'' ''solana'')
       = Inr (Bundle ''SOL'' ''solana'' priced_data
                (map signal_to_dict
                   [example_signal ''bullish'' 80, example_signal ''bearish'' 60,
                    example_signal ''neutral'' 50, example_signal ''neutral'' 50])
                (signal_to_dict (example_signal ''neutral'' 60)) ''hold'')"
    using t
    by (simp add: analyze_def post_init_def run_agents_parallel_def gather_def example_invoke_def
          example_risk_def example_synthesize_def avg_confidence_def example_signal_def)
  have j: "fst (run_agents_parallel True example_invoke
          [WarrenBuffettAgent, MichaelBurryAgent, DegenAgent, SolanaSpecialistAgent, WhaleWatcherAgent])
     = [example_signal ''bullish'' 80, example_signal ''bearish'' 60, example_signal ''neutral'' 50]"
    by (simp add: parallel_join_keeps_successes_in_order [THEN conjunct1]
          List.map_filter_def example_invoke_def successful_signal_def)
  have k: "b_agent_signals (Bundle ''SOL'' ''solana'' priced_data
                (map signal_to_dict
                   [example_signal ''bullish'' 80, example_signal ''bearish'' 60,
                    example_signal ''neutral'' 50, example_signal ''neutral'' 50])
                (signal_to_dict (example_signal ''neutral'' 60)) ''hold'')
       = map signal_to_dict
           (List.map_filter (\<lambda>a. successful_signal (example_invoke a))
              (persona_agents (post_init ''fast'' True) @ crypto_agents (post_init ''fast'' True)))"
    using parallel_join_keeps_successes_in_order
            [THEN conjunct2, THEN conjunct2, rule_format, OF conjI, OF r t] .
  from t r j k show ?thesis by blast
qed

subsection \<open>Average confidence\<close>






subsection \<open>The short-circuit of \<open>analyze\<close>\<close>

text \<open>
  Against claim C7 as stated: a snapshot with a price field can take the error exit. The
  test is \<open>not market_data.get("price")\<close>, so a price of 0 takes it.
\<close>

theorem analyze_zero_price_counterexample:
  "zero_price_data ''price'' = Some (PyFloat 0)
   \<and> analyze (post_init ''full'' True) zero_price_data example_invoke example_risk
        example_synthesize ''SOL'' ''solana''
       = (Inr (Error_result ''Could not fetch market data for SOL'' ''SOL'' ''solana''), [])"
  by (simp add: analyze_def zero_price_data_def dict_get_def)

text \<open>
  Claim C7, amended. \<open>analyze\<close> returns the error result with the token and the chain,
  running no strategy and printing nothing, exactly when the price entry is missing or
  false in Python's sense (\<open>None\<close>, \<open>False\<close>, zero, the empty string). For every other
  snapshot it never returns the error result, and a returned bundle carries the signals
  of the roster.
\<close>

theorem analyze_short_circuit:
  "(\<not> truthy (dict_get md ''price'') \<longleftrightarrow>
      md ''price'' \<in> {None, Some PyNone, Some (PyBool False), Some (PyInt 0),
                       Some (PyFloat 0), Some (PyStr [])})
   \<and> (\<not> truthy (dict_get md ''price'') \<longrightarrow>
        analyze g md invoke ra syn token chain
          = (Inr (Error_result (''Could not fetch market data for '' @ token) token chain), []))
   \<and> (truthy (dict_get md ''price'') \<longrightarrow>
        (\<forall>msg t c. fst (analyze g md invoke ra syn token chain) \<noteq> Inr (Error_result msg t c))
        \<and> (\<forall>out. fst (analyze g md invoke ra syn token chain) = Inr out \<longrightarrow>
              b_agent_signals out = map signal_to_dict (all_signals g invoke)))"
proof -
  have 1: "\<not> truthy (dict_get md ''price'') \<longleftrightarrow>
      md ''price'' \<in> {None, Some PyNone, Some (PyBool False), Some (PyInt 0),
                       Some (PyFloat 0), Some (PyStr [])}"
  proof (cases "md ''price''")
    case None
    then show ?thesis by (simp add: dict_get_def)
  next
    case (Some v)
    then show ?thesis by (cases v) (simp_all add: dict_get_def)
  qed
  have 2: "analyze g md invoke ra syn token chain
          = (Inr (Error_result (''Could not fetch market data for '' @ token) token chain), [])"
    if "\<not> truthy (dict_get md ''price'')"
    using that by (simp add: analyze_def)
  have 3: "fst (analyze g md invoke ra syn token chain) \<noteq> Inr (Error_result msg t c)"
    if "truthy (dict_get md ''price'')" for msg t c
    using that by (simp add: analyze_result split: sum.splits)
  have 4: "b_agent_signals out = map signal_to_dict (all_signals g invoke)"
    if "truthy (dict_get md ''price'')" "fst (analyze g md invoke ra syn token chain) = Inr out" for out
    using that by (auto simp: analyze_result split: sum.splits)
  show ?thesis using 1 2 3 4 by blast
qed

theorem analyze_short_circuit_witness:
  "\<not> truthy (dict_get zero_price_data ''price'')
   \<and> analyze (post_init ''full'' True) zero_price_data example_invoke example_risk
        example_synthesize ''SOL'' ''solana''
       = (Inr (Error_result ''Could not fetch market data for SOL'' ''SOL'' ''solana''), [])
   \<and> truthy (dict_get priced_data ''price'')
   \<and> fst (analyze (post_init ''full'' True) priced_data example_invoke example_risk
        example_synthesize ''SOL'' ''solana'')
       \<noteq> Inr (Error_result ''Could not fetch market data for SOL'' ''SOL'' ''solana'')"
proof -
  have z: "\<not> truthy (dict_get zero_price_data ''price'')"
    by (simp add: zero_price_data_def dict_get_def)
  have t: "truthy (dict_get priced_data ''price'')"
    by (simp add: priced_data_def dict_get_def)
  from analyze_short_circuit
         [of zero_price_data "post_init ''full'' True" example_invoke example_risk
             example_synthesize "''SOL''" "''solana''"]
       analyze_short_circuit
         [of priced_data "post_init ''full'' True" example_invoke example_risk
             example_synthesize "''SOL''" "''solana''"]
       z t
  show ?thesis by simp
qed


section \<open>Properties of the backtest simulator\<close>

subsection \<open>The signal scan\<close>

lemma signal_step_occupied:
  "position st = Some p \<Longrightarrow> signal_step fa e tok c s st = st"
  by (simp add: signal_step_def Let_def split: option.splits)

lemma scan_signals_occupied:
  "position st = Some p \<Longrightarrow> scan_signals fa e tok c ss st = st"
  by (induction ss) (simp_all add: signal_step_occupied)

lemma signal_step_cases:
  "signal_step fa e tok c s st =
     (if qualifies c s \<and> position st = None
      then open_position fa e tok c (case s_confidence s of None \<Rightarrow> 50 | Some x \<Rightarrow> x) st
      else st)"
  by (simp add: signal_step_def qualifies_def open_position_def Let_def split: option.splits)

lemma position_open_position:
  "position (open_position fa e tok c conf st) \<noteq> None"
  by (simp add: open_position_def)

lemma scan_signals_cases:
  "scan_signals fa e tok c ss st = st
   \<or> (position st = None \<and> (\<exists>s\<in>set ss. qualifies c s \<and>
         scan_signals fa e tok c ss st
           = open_position fa e tok c (case s_confidence s of None \<Rightarrow> 50 | Some x \<Rightarrow> x) st))"
proof (induction ss arbitrary: st)
  case Nil
  show ?case by simp
next
  case (Cons s ss)
  show ?case
  proof (cases "qualifies c s \<and> position st = None")
    case True
    then have "signal_step fa e tok c s st
        = open_position fa e tok c (case s_confidence s of None \<Rightarrow> 50 | Some x \<Rightarrow> x) st"
      by (simp add: signal_step_cases)
    moreover obtain q where "position (open_position fa e tok c
        (case s_confidence s of None \<Rightarrow> 50 | Some x \<Rightarrow> x) st) = Some q"
      using position_open_position by fastforce
    ultimately have "scan_signals fa e tok c (s # ss) st
        = open_position fa e tok c (case s_confidence s of None \<Rightarrow> 50 | Some x \<Rightarrow> x) st"
      by (simp add: scan_signals_occupied)
    with True show ?thesis by auto
  next
    case False
    then have "signal_step fa e tok c s st = st"
      by (auto simp: signal_step_cases)
    then have "scan_signals fa e tok c (s # ss) st = scan_signals fa e tok c ss st"
      by simp
    with Cons.IH [of st] show ?thesis by auto
  qed
qed

lemma scan_signals_opens:
  assumes "position st = None" and "s \<in> set ss" and "qualifies c s"
  shows "\<exists>conf. scan_signals fa e tok c ss st = open_position fa e tok c conf st"
  using assms
proof (induction ss arbitrary: st)
  case Nil
  then show ?case by simp
next
  case (Cons x xs)
  show ?case
  proof (cases "qualifies c x")
    case True
    then have "signal_step fa e tok c x st
        = open_position fa e tok c (case s_confidence x of None \<Rightarrow> 50 | Some v \<Rightarrow> v) st"
      using Cons.prems by (simp add: signal_step_cases)
    moreover obtain q where "position (open_position fa e tok c
        (case s_confidence x of None \<Rightarrow> 50 | Some v \<Rightarrow> v) st) = Some q"
      using position_open_position by fastforce
    ultimately show ?thesis
      by (auto simp: scan_signals_occupied)
  next
    case False
    then have "signal_step fa e tok c x st = st" "s \<in> set xs"
      using Cons.prems by (auto simp: signal_step_cases)
    then show ?thesis
      using Cons.IH [of st] Cons.prems by simp
  qed
qed

subsection \<open>The phases of one bar\<close>

lemma check_exit_cases:
  assumes "check_exit fa e c st = Inr st1"
  shows "st1 = st
         \<or> (\<exists>p u. position st = Some p \<and> unrealized_pnl_pct fa p (c_close c) = Inr u
               \<and> exit_branch e u \<noteq> None
               \<and> st1 = st\<lparr> balance :=
                             fadd fa (balance st)
                               (fadd fa (t_size p) (fmul fa (t_size p) (fdiv fa u 100))),
                           st_trades := st_trades st
                              @ [close_trade fa p (c_close c) (c_timestamp c) u],
                           position := None \<rparr>)"
  using assms
  by (auto simp: check_exit_def Let_def close_trade_def
           split: option.splits sum.splits exit_kind.splits)

lemma track_equity_fields:
  assumes "track_equity fa c st = Inr st'"
  shows "position st' = position st \<and> st_trades st' = st_trades st \<and> balance st' = balance st"
  using assms by (auto simp: track_equity_def split: option.splits sum.splits)

lemma t_closed_close_trade: "t_closed (close_trade fa p pr ts u)"
  by (simp add: close_trade_def)

subsection \<open>Concrete runs\<close>

lemmas engine_defs =
  process_candle_def check_exit_def init_state_def signal_step_def lower_def lower_char_def
  track_equity_def unrealized_pnl_pct_def py_div_def exit_branch_def close_trade_def
  close_remaining_def win_rate_of_def winning_of_def losing_of_def
  fadd_def fsub_def fmul_def fdiv_def exact_arith_def exact_pow_def

lemma two_bar_candles:
  "fetch_historical_data exact_arith utc_fromtimestamp two_bar_response
     = [\<lparr> c_timestamp = 0, c_open = 64, c_high = 64, c_low = 64, c_close = 64 \<rparr>,
        \<lparr> c_timestamp = 14400, c_open = 64, c_high = 80, c_low = 64, c_close = 80 \<rparr>]"
  by (simp add: two_bar_response_def fetch_historical_data_def candle_of_row_def
        utc_fromtimestamp_def fdiv_def exact_arith_def)

lemma three_bar_candles:
  "fetch_historical_data exact_arith utc_fromtimestamp three_bar_response
     = [\<lparr> c_timestamp = 0, c_open = 64, c_high = 64, c_low = 64, c_close = 64 \<rparr>,
        \<lparr> c_timestamp = 14400, c_open = 64, c_high = 64, c_low = 48, c_close = 48 \<rparr>,
        \<lparr> c_timestamp = 28800, c_open = 48, c_high = 60, c_low = 48, c_close = 60 \<rparr>]"
  by (simp add: three_bar_response_def fetch_historical_data_def candle_of_row_def
        utc_fromtimestamp_def fdiv_def exact_arith_def)

lemma flat_candles:
  "fetch_historical_data exact_arith utc_fromtimestamp flat_response
     = [\<lparr> c_timestamp = 0, c_open = 64, c_high = 64, c_low = 64, c_close = 64 \<rparr>,
        \<lparr> c_timestamp = 14400, c_open = 64, c_high = 64, c_low = 64, c_close = 64 \<rparr>]"
  by (simp add: flat_response_def fetch_historical_data_def candle_of_row_def
        utc_fromtimestamp_def fdiv_def exact_arith_def)

text \<open>A timestamp the conversion refuses leaves no candles, whatever the other rows are.\<close>

lemma refused_timestamp_gives_no_candles:
  "fetch_historical_data exact_arith utc_fromtimestamp
     (Http_response 200
        (Some [[0, 64, 64, 64, 64], [1000000000000000000, 64, 80, 64, 80]]))
     = []"
  by (simp add: fetch_historical_data_def candle_of_row_def utc_fromtimestamp_def fdiv_def
        exact_arith_def)


lemma two_bar_run:
  "run_backtest exact_arith example_engine ''solana'' [buy_signal] 30 0 0
     utc_fromtimestamp two_bar_response
     = Inr two_bar_result"
  by (simp add: run_backtest_def two_bar_candles Let_def)
    (simp add: engine_defs example_engine_def buy_signal_def two_bar_result_def
       example_position_def sharpe_of_def)

lemma three_bar_run:
  "run_backtest exact_arith example_engine ''solana'' [buy_signal, late_bullish_signal] 30 0 0
     utc_fromtimestamp three_bar_response
     = Inr three_bar_result"
  by (simp add: run_backtest_def three_bar_candles Let_def)
    (simp add: engine_defs example_engine_def buy_signal_def late_bullish_signal_def
       three_bar_result_def first_trade_closed_def second_position_def sharpe_of_def)

lemma flat_run:
  "run_backtest exact_arith example_engine ''solana'' [] 30 0 0 utc_fromtimestamp flat_response
     = Inr \<lparr> res_token = ''solana'', start_date = 0, end_date = 14400,
             res_initial_balance = 10000, final_balance = 10000,
             total_pnl = 0, total_pnl_pct = 0,
             total_trades = 0, winning_trades = 0, losing_trades = 0,
             win_rate = 0, max_drawdown = 0, sharpe_ratio = 0,
             trades = [],
             equity_curve = [\<lparr> ep_timestamp = 0, ep_equity = 10000, ep_price = 64 \<rparr>,
                             \<lparr> ep_timestamp = 14400, ep_equity = 10000, ep_price = 64 \<rparr>] \<rparr>"
  by (simp add: run_backtest_def flat_candles Let_def)
    (simp add: engine_defs example_engine_def sharpe_of_def)

subsection \<open>Stop-loss and take-profit exits\<close>




subsection \<open>Exit and entry within one bar\<close>

text \<open>
  Claim C10. The exit check runs before the signal scan of the same bar. When a bar
  closes the open position by stop-loss or take-profit and the timeline holds a
  qualifying signal (timestamp strictly less than 3600 seconds from the bar's, confidence
  at least 60, action \<open>buy\<close> or \<open>bullish\<close> in any letter case), the processing of that
  bar records the closed trade and leaves a new position opened at the bar's close price
  and time, sized from the balance after the exit. The bar's close price is not 0, as
  the equity of the bar divides by the entry price of the new position.
\<close>

theorem exit_then_reopen_same_bar:
  assumes "position st = Some pos"
    and "unrealized_pnl_pct fa pos (c_close c) = Inr u"
    and "u \<le> - stop_loss_pct e \<or> u \<ge> take_profit_pct e"
    and "s \<in> set signals"
    and "s_timestamp s = Some ts"
    and "\<bar>ts - c_timestamp c\<bar> < 3600"
    and "(case s_confidence s of None \<Rightarrow> 50 | Some x \<Rightarrow> x) \<ge> 60"
    and "lower (case s_action s of None \<Rightarrow> [] | Some a \<Rightarrow> a) \<in> {''buy'', ''bullish''}"
    and "c_close c \<noteq> 0"
  shows "\<exists>st' conf.
           process_candle fa e tok signals c st = Inr st'
           \<and> st_trades st' = st_trades st @ [close_trade fa pos (c_close c) (c_timestamp c) u]
           \<and> position st'
               = Some \<lparr> t_token = tok, t_action = ''buy'', t_price = c_close c,
                        t_size =
                          rnd fa (rnd fa (balance st
                                           + rnd fa (t_size pos
                                                      + rnd fa (t_size pos * rnd fa (u / 100))))
                                  * rnd fa (position_size_pct e / 100)),
                        t_timestamp = c_timestamp c, t_signal_confidence = conf,
                        t_pnl = 0, t_pnl_pct = 0, t_closed = False,
                        t_close_price = None, t_close_timestamp = None \<rparr>"
proof -
  define st1 where
    "st1 = st\<lparr> balance :=
                 fadd fa (balance st)
                   (fadd fa (t_size pos) (fmul fa (t_size pos) (fdiv fa u 100))),
               st_trades := st_trades st @ [close_trade fa pos (c_close c) (c_timestamp c) u],
               position := None \<rparr>"
  have exit: "check_exit fa e c st = Inr st1"
    using assms(1,2,3)
    by (auto simp: check_exit_def exit_branch_def close_trade_def Let_def st1_def)
  have q: "qualifies c s"
    using assms(5,6,7,8) by (simp add: qualifies_def)
  have "position st1 = None"
    by (simp add: st1_def)
  then obtain conf where scan:
    "scan_signals fa e tok c signals st1 = open_position fa e tok c conf st1"
    using scan_signals_opens [OF _ assms(4) q] by blast
  have "\<exists>st'. track_equity fa c (open_position fa e tok c conf st1) = Inr st'"
    using assms(9)
    by (simp add: track_equity_def open_position_def unrealized_pnl_pct_def py_div_def)
  then obtain st' where eq: "track_equity fa c (open_position fa e tok c conf st1) = Inr st'"
    by blast
  have run: "process_candle fa e tok signals c st = Inr st'"
    by (simp add: process_candle_def exit scan eq)
  have "st_trades st' = st_trades st @ [close_trade fa pos (c_close c) (c_timestamp c) u]"
    using track_equity_fields [OF eq] by (simp add: open_position_def st1_def)
  moreover have "position st'
               = Some \<lparr> t_token = tok, t_action = ''buy'', t_price = c_close c,
                        t_size =
                          rnd fa (rnd fa (balance st
                                           + rnd fa (t_size pos
                                                      + rnd fa (t_size pos * rnd fa (u / 100))))
                                  * rnd fa (position_size_pct e / 100)),
                        t_timestamp = c_timestamp c, t_signal_confidence = conf,
                        t_pnl = 0, t_pnl_pct = 0, t_closed = False,
                        t_close_price = None, t_close_timestamp = None \<rparr>"
    using track_equity_fields [OF eq]
    by (simp add: open_position_def st1_def fadd_def fmul_def fdiv_def)
  ultimately show ?thesis
    using run by blast
qed

theorem exit_then_reopen_same_bar_witness:
  "position example_open_state = Some example_position
   \<and> unrealized_pnl_pct exact_arith example_position (c_close falling_candle) = Inr (- 25)
   \<and> - 25 \<le> - stop_loss_pct example_engine
   \<and> s_timestamp late_bullish_signal = Some 16200
   \<and> \<bar>16200 - c_timestamp falling_candle\<bar> < 3600
   \<and> lower ''BULLISH'' = ''bullish''
   \<and> c_close falling_candle \<noteq> 0
   \<and> process_candle exact_arith example_engine ''solana'' [buy_signal, late_bullish_signal]
        falling_candle example_open_state
       = Inr \<lparr> balance = 28125 / 4, position = Some second_position,
               st_trades = [first_trade_closed],
               st_equity_curve =
                 [\<lparr> ep_timestamp = 0, ep_equity = 10000, ep_price = 64 \<rparr>,
                  \<lparr> ep_timestamp = 14400, ep_equity = 9375, ep_price = 48 \<rparr>],
               peak_balance = 10000 \<rparr>
   \<and> (\<exists>st' conf.
         process_candle exact_arith example_engine ''solana'' [buy_signal, late_bullish_signal]
           falling_candle example_open_state = Inr st'
         \<and> st_trades st' = [first_trade_closed]
         \<and> position st' = Some (second_position \<lparr> t_signal_confidence := conf \<rparr>))
   \<and> run_backtest exact_arith example_engine ''solana'' [buy_signal, late_bullish_signal]
        30 0 0 utc_fromtimestamp three_bar_response = Inr three_bar_result
   \<and> t_close_timestamp (trades three_bar_result ! 0) = Some 14400
   \<and> t_timestamp (trades three_bar_result ! 1) = 14400
   \<and> t_price (trades three_bar_result ! 1) = 48"
proof -
  have p: "position example_open_state = Some example_position"
    by (simp add: example_open_state_def)
  have u: "unrealized_pnl_pct exact_arith example_position (c_close falling_candle)
             = Inr (- 25)"
    by (simp add: unrealized_pnl_pct_def py_div_def fsub_def fmul_def exact_arith_def
          example_position_def falling_candle_def)
  have x: "- 25 \<le> - stop_loss_pct example_engine \<or> - 25 \<ge> take_profit_pct example_engine"
    by (simp add: example_engine_def)
  have m: "late_bullish_signal \<in> set [buy_signal, late_bullish_signal]"
    by simp
  have t: "s_timestamp late_bullish_signal = Some 16200"
    by (simp add: late_bullish_signal_def)
  have d: "\<bar>16200 - c_timestamp falling_candle\<bar> < 3600"
    by (simp add: falling_candle_def)
  have cf: "(case s_confidence late_bullish_signal of None \<Rightarrow> 50 | Some x \<Rightarrow> x) \<ge> 60"
    by (simp add: late_bullish_signal_def)
  have l: "lower ''BULLISH'' = ''bullish''"
    by (simp add: lower_def lower_char_def)
  then have a: "lower (case s_action late_bullish_signal of None \<Rightarrow> [] | Some a \<Rightarrow> a)
                  \<in> {''buy'', ''bullish''}"
    by (simp add: late_bullish_signal_def)
  have z: "c_close falling_candle \<noteq> 0"
    by (simp add: falling_candle_def)
  have v: "process_candle exact_arith example_engine ''solana'' [buy_signal, late_bullish_signal]
        falling_candle example_open_state
       = Inr \<lparr> balance = 28125 / 4, position = Some second_position,
               st_trades = [first_trade_closed],
               st_equity_curve =
                 [\<lparr> ep_timestamp = 0, ep_equity = 10000, ep_price = 64 \<rparr>,
                  \<lparr> ep_timestamp = 14400, ep_equity = 9375, ep_price = 48 \<rparr>],
               peak_balance = 10000 \<rparr>"
    by (simp add: engine_defs example_engine_def example_open_state_def example_position_def
          falling_candle_def buy_signal_def late_bullish_signal_def second_position_def
          first_trade_closed_def)
  from exit_then_reopen_same_bar [OF p u x m t d cf a z, of "''solana''"]
  obtain st' conf where r:
    "process_candle exact_arith example_engine ''solana'' [buy_signal, late_bullish_signal]
           falling_candle example_open_state = Inr st'"
    "st_trades st' = st_trades example_open_state
        @ [close_trade exact_arith example_position (c_close falling_candle)
             (c_timestamp falling_candle) (- 25)]"
    "\<exists>sz. position st'
        = Some \<lparr> t_token = ''solana'', t_action = ''buy'', t_price = c_close falling_candle,
                 t_size = sz,
                 t_timestamp = c_timestamp falling_candle, t_signal_confidence = conf,
                 t_pnl = 0, t_pnl_pct = 0, t_closed = False,
                 t_close_price = None, t_close_timestamp = None \<rparr>"
    by blast
  have e: "\<exists>st' conf.
         process_candle exact_arith example_engine ''solana'' [buy_signal, late_bullish_signal]
           falling_candle example_open_state = Inr st'
         \<and> st_trades st' = [first_trade_closed]
         \<and> position st' = Some (second_position \<lparr> t_signal_confidence := conf \<rparr>)"
    using r(1) v by (auto simp: second_position_def)
  have w: "t_close_timestamp (trades three_bar_result ! 0) = Some 14400
     \<and> t_timestamp (trades three_bar_result ! 1) = 14400
     \<and> t_price (trades three_bar_result ! 1) = 48"
    by (simp add: three_bar_result_def first_trade_closed_def second_position_def)
  from p u x t d l z v e w three_bar_run show ?thesis
    by (simp add: example_engine_def)
qed

subsection \<open>Invariants of the loop\<close>

lemma well_formed_open_position:
  "well_formed st \<Longrightarrow> well_formed (open_position fa e tok c conf st)"
  by (simp add: well_formed_def open_position_def)

lemma process_candle_cases:
  assumes "process_candle fa e tok signals c st = Inr st'"
  shows "(st_trades st' = st_trades st
            \<and> (position st' = position st
                \<or> (position st = None \<and> (\<exists>q. position st' = Some q \<and> \<not> t_closed q))))
         \<or> (\<exists>p u. position st = Some p
               \<and> st_trades st' = st_trades st @ [close_trade fa p (c_close c) (c_timestamp c) u]
               \<and> (position st' = None \<or> (\<exists>q. position st' = Some q \<and> \<not> t_closed q)))"
proof -
  from assms obtain st1 where
    1: "check_exit fa e c st = Inr st1" and
    2: "track_equity fa c (scan_signals fa e tok c signals st1) = Inr st'"
    by (auto simp: process_candle_def split: sum.splits)
  note f = track_equity_fields [OF 2]
  from scan_signals_cases [of fa e tok c signals st1]
  have s: "(position (scan_signals fa e tok c signals st1) = position st1
              \<or> (position st1 = None
                  \<and> (\<exists>q. position (scan_signals fa e tok c signals st1) = Some q
                         \<and> \<not> t_closed q)))
           \<and> st_trades (scan_signals fa e tok c signals st1) = st_trades st1"
    by (auto simp: open_position_def)
  from check_exit_cases [OF 1] show ?thesis
  proof
    assume "st1 = st"
    with f s show ?thesis by auto
  next
    assume "\<exists>p u. position st = Some p \<and> unrealized_pnl_pct fa p (c_close c) = Inr u
               \<and> exit_branch e u \<noteq> None
               \<and> st1 = st\<lparr> balance :=
                             fadd fa (balance st)
                               (fadd fa (t_size p) (fmul fa (t_size p) (fdiv fa u 100))),
                           st_trades := st_trades st
                              @ [close_trade fa p (c_close c) (c_timestamp c) u],
                           position := None \<rparr>"
    then obtain p u where
      "position st = Some p"
      "st1 = st\<lparr> balance :=
                   fadd fa (balance st)
                     (fadd fa (t_size p) (fmul fa (t_size p) (fdiv fa u 100))),
                 st_trades := st_trades st
                    @ [close_trade fa p (c_close c) (c_timestamp c) u],
                 position := None \<rparr>"
      by blast
    with f s show ?thesis by auto
  qed
qed

lemma process_candle_well_formed:
  assumes "process_candle fa e tok signals c st = Inr st'" and "well_formed st"
  shows "well_formed st'"
  using process_candle_cases [OF assms(1)] assms(2)
  by (auto simp: well_formed_def t_closed_close_trade split: option.splits)

lemma run_loop_well_formed:
  "run_loop fa e tok signals cs st = Inr st' \<Longrightarrow> well_formed st \<Longrightarrow> well_formed st'"
proof (induction cs arbitrary: st)
  case Nil
  then show ?case by simp
next
  case (Cons c cs)
  then show ?case
    by (auto split: sum.splits dest: process_candle_well_formed)
qed

lemma run_loop_append:
  "run_loop fa e tok signals (xs @ ys) st =
     (case run_loop fa e tok signals xs st of
        Inl err \<Rightarrow> Inl err
      | Inr st1 \<Rightarrow> run_loop fa e tok signals ys st1)"
  by (induction xs arbitrary: st) (auto split: sum.splits)

lemma run_loop_trades_grow:
  "run_loop fa e tok signals cs st = Inr st' \<Longrightarrow> \<exists>more. st_trades st' = st_trades st @ more"
proof (induction cs arbitrary: st)
  case Nil
  then show ?case by simp
next
  case (Cons c cs)
  from Cons.prems obtain st1 where
    1: "process_candle fa e tok signals c st = Inr st1" and
    2: "run_loop fa e tok signals cs st1 = Inr st'"
    by (auto split: sum.splits)
  from process_candle_cases [OF 1] obtain m1 where "st_trades st1 = st_trades st @ m1"
    by auto
  moreover from Cons.IH [OF 2] obtain m2 where "st_trades st' = st_trades st1 @ m2"
    by blast
  ultimately show ?case by simp
qed

lemma run_loop_position_closed:
  "run_loop fa e tok signals cs st = Inr st' \<Longrightarrow> position st = Some p \<Longrightarrow>
   (position st' = Some p \<and> st_trades st' = st_trades st)
   \<or> (\<exists>pr ts u rest. st_trades st' = st_trades st @ [close_trade fa p pr ts u] @ rest)"
proof (induction cs arbitrary: st)
  case Nil
  then show ?case by simp
next
  case (Cons c cs)
  from Cons.prems obtain st1 where
    1: "process_candle fa e tok signals c st = Inr st1" and
    2: "run_loop fa e tok signals cs st1 = Inr st'"
    by (auto split: sum.splits)
  from process_candle_cases [OF 1] Cons.prems(2)
  consider (same) "st_trades st1 = st_trades st" "position st1 = Some p"
    | (closed) u where
        "st_trades st1 = st_trades st @ [close_trade fa p (c_close c) (c_timestamp c) u]"
    by auto
  then show ?case
  proof cases
    case same
    with Cons.IH [OF 2] show ?thesis by simp
  next
    case closed
    from run_loop_trades_grow [OF 2] obtain more where "st_trades st' = st_trades st1 @ more"
      by blast
    with closed show ?thesis by auto
  qed
qed

lemma close_remaining_cases:
  assumes "close_remaining fa candles st = Inr (bal, ts)"
  shows "(position st = None \<and> ts = st_trades st \<and> bal = balance st)
         \<or> (\<exists>p u. position st = Some p
               \<and> unrealized_pnl_pct fa p (c_close (last candles)) = Inr u
               \<and> ts = st_trades st
                      @ [close_trade fa p (c_close (last candles)) (c_timestamp (last candles)) u]
               \<and> bal = fadd fa (balance st)
                          (fadd fa (t_size p) (fmul fa (t_size p) (fdiv fa u 100))))"
  using assms
  by (auto simp: close_remaining_def Let_def close_trade_def split: option.splits sum.splits)

text \<open>
  Without candles the run returns the result without trades when the start date,
  \<open>days\<close> days before the first clock reading, is a date; otherwise it raises.
\<close>

lemma run_backtest_no_candles:
  assumes "fetch_historical_data fa fromtimestamp response = []"
  shows "run_backtest fa e token_id signals days now1 now2 fromtimestamp response
     = (if \<bar>days\<bar> \<le> 999999999
           \<and> datetime_min \<le> now1 - real_of_int days * 86400
           \<and> now1 - real_of_int days * 86400 \<le> datetime_max
        then Inr \<lparr> res_token = token_id,
                   start_date = now1 - real_of_int days * 86400,
                   end_date = now2,
                   res_initial_balance = initial_balance e,
                   final_balance = initial_balance e,
                   total_pnl = 0, total_pnl_pct = 0,
                   total_trades = 0, winning_trades = 0, losing_trades = 0,
                   win_rate = 0, max_drawdown = 0, sharpe_ratio = 0,
                   trades = [], equity_curve = [] \<rparr>
        else Inl OverflowError)"
  using assms by (simp add: run_backtest_def timedelta_days_def datetime_sub_def)

lemma run_backtest_with_candles:
  assumes "run_backtest fa e tok signals days now1 now2 fromtimestamp response = Inr r"
    and "fetch_historical_data fa fromtimestamp response \<noteq> []"
  shows "\<exists>st bal.
           run_loop fa e tok signals (fetch_historical_data fa fromtimestamp response)
             (init_state e) = Inr st
           \<and> close_remaining fa (fetch_historical_data fa fromtimestamp response) st
               = Inr (bal, trades r)
           \<and> final_balance r = bal
           \<and> total_trades r = length (trades r)
           \<and> winning_trades r = length (winning_of (trades r))
           \<and> losing_trades r = length (losing_of (trades r))
           \<and> win_rate r = win_rate_of fa (trades r)
           \<and> equity_curve r = st_equity_curve st"
  using assms
  by (auto simp: run_backtest_def Let_def split: sum.splits prod.splits)

subsection \<open>No historical data\<close>

text \<open>
  Claim C9 holds of the engine only while the start date of the empty result is a
  date. The branch for no candles computes \<open>datetime.now() - timedelta(days=days)\<close> before
  it builds the result, and nothing bounds \<open>days\<close>. With a failed request, \<open>days =
  4000000\<close> and the clock at 2026-11-03 the start date lies before year 1: the run
  raises \<open>OverflowError\<close> where the claim has it return the result without trades. With
  \<open>days = 30\<close> the same call returns that result.
\<close>

theorem no_candles_overflow_for_large_days:
  "fetch_historical_data exact_arith utc_fromtimestamp Request_failed = []
   \<and> run_backtest exact_arith example_engine ''solana'' [] 4000000 1793664000 1793664000
        utc_fromtimestamp Request_failed
       = Inl OverflowError
   \<and> run_backtest exact_arith example_engine ''solana'' [] 30 1793664000 1793664000
        utc_fromtimestamp Request_failed
       = Inr \<lparr> res_token = ''solana'', start_date = 1791072000, end_date = 1793664000,
               res_initial_balance = 10000, final_balance = 10000,
               total_pnl = 0, total_pnl_pct = 0,
               total_trades = 0, winning_trades = 0, losing_trades = 0,
               win_rate = 0, max_drawdown = 0, sharpe_ratio = 0,
               trades = [], equity_curve = [] \<rparr>"
proof -
  have f: "fetch_historical_data exact_arith utc_fromtimestamp Request_failed = []"
    by (simp add: fetch_historical_data_def)
  show ?thesis
    by (simp add: f run_backtest_no_candles [OF f] datetime_min_def datetime_max_def
          example_engine_def)
qed

subsection \<open>Win rate\<close>

text \<open>
  Against claim C5 as stated: the win rate is not the quotient of the counts but that
  quotient times 100. A run with one trade, a winning one, reports a win rate of 100,
  not 1.
\<close>

theorem win_rate_quotient_counterexample:
  "run_backtest exact_arith example_engine ''solana'' [buy_signal] 30 0 0
     utc_fromtimestamp two_bar_response
     = Inr two_bar_result
   \<and> total_trades two_bar_result = 1
   \<and> winning_trades two_bar_result = 1
   \<and> win_rate two_bar_result = 100
   \<and> win_rate two_bar_result
       \<noteq> real (winning_trades two_bar_result) / real (total_trades two_bar_result)"
  by (rule conjI [OF two_bar_run]) (simp add: two_bar_result_def)

text \<open>
  Claim C5, amended. For every backtest run that returns a result, the reported win rate
  is a percentage: the number of winning trades (realized pnl above 0) divided by the
  total number of trades, times 100, as the engine's arithmetic computes the quotient
  and the product; and it is 0 when there is no trade, in which case no division by
  the trade count takes place.
\<close>

theorem win_rate_is_percentage:
  assumes "run_backtest fa e tok signals days now1 now2 fromtimestamp response = Inr r"
  shows "win_rate r
           = (if total_trades r = 0 then 0
              else rnd fa (rnd fa (real (winning_trades r) / real (total_trades r)) * 100))
         \<and> (total_trades r = 0 \<longrightarrow> win_rate r = 0)
         \<and> total_trades r = length (trades r)
         \<and> winning_trades r = length (filter (\<lambda>t. t_pnl t > 0) (trades r))"
proof (cases "fetch_historical_data fa fromtimestamp response = []")
  case True
  from run_backtest_no_candles [OF True, of e tok signals days now1 now2] assms
  show ?thesis by (auto split: if_splits)
next
  case False
  from run_backtest_with_candles [OF assms False]
  show ?thesis by (auto simp: win_rate_of_def winning_of_def fmul_def fdiv_def)
qed

theorem win_rate_is_percentage_witness:
  "run_backtest exact_arith example_engine ''solana'' [buy_signal, late_bullish_signal] 30 0 0
     utc_fromtimestamp three_bar_response = Inr three_bar_result
   \<and> total_trades three_bar_result = 2
   \<and> winning_trades three_bar_result = 1
   \<and> win_rate three_bar_result = 1 / 2 * 100
   \<and> run_backtest exact_arith example_engine ''solana'' [] 30 0 0 utc_fromtimestamp
        flat_response
       = Inr \<lparr> res_token = ''solana'', start_date = 0, end_date = 14400,
               res_initial_balance = 10000, final_balance = 10000,
               total_pnl = 0, total_pnl_pct = 0,
               total_trades = 0, winning_trades = 0, losing_trades = 0,
               win_rate = 0, max_drawdown = 0, sharpe_ratio = 0,
               trades = [],
               equity_curve = [\<lparr> ep_timestamp = 0, ep_equity = 10000, ep_price = 64 \<rparr>,
                               \<lparr> ep_timestamp = 14400, ep_equity = 10000, ep_price = 64 \<rparr>] \<rparr>"
proof -
  have t: "total_trades three_bar_result = 2" "winning_trades three_bar_result = 1"
    by (simp_all add: three_bar_result_def)
  from win_rate_is_percentage [OF three_bar_run] t
  have "win_rate three_bar_result = 1 / 2 * 100"
    by (simp add: exact_arith_def)
  with t three_bar_run flat_run show ?thesis by simp
qed

subsection \<open>One position at a time, and every trade closed\<close>

lemma open_trades_well_formed:
  "well_formed st \<Longrightarrow> length (open_trades st) \<le> 1"
  by (auto simp: well_formed_def open_trades_def list_all_iff filter_empty_conv
           split: option.splits)

lemma well_formed_init: "well_formed (init_state e)"
  by (simp add: well_formed_def init_state_def)

text \<open>
  Claim C8. In a backtest run that returns a result: every trade of the result is closed;
  after each bar the state holds at most one trade that is not closed, namely the open
  position if there is one, and that position appears closed in the result's trade list
  right after the trades closed before it; a position still open after the last bar is
  closed at the last candle's price and time and is the last trade of the list; and the
  signal scan leaves a state with an open position as it is, so that a position is
  opened only when none is open.
\<close>

theorem single_position_and_all_trades_closed:
  assumes "run_backtest fa e tok signals days now1 now2 fromtimestamp response = Inr r"
  shows "(\<forall>t\<in>set (trades r). t_closed t)
     \<and> (\<forall>k\<le>length (fetch_historical_data fa fromtimestamp response).
          \<exists>st. run_loop fa e tok signals
                  (take k (fetch_historical_data fa fromtimestamp response)) (init_state e)
                 = Inr st
               \<and> length (open_trades st) \<le> 1
               \<and> (\<forall>p. position st = Some p \<longrightarrow>
                      \<not> t_closed p
                      \<and> (\<exists>pr ts u rest.
                            trades r = st_trades st @ [close_trade fa p pr ts u] @ rest)))
     \<and> (\<forall>st p. run_loop fa e tok signals (fetch_historical_data fa fromtimestamp response)
                   (init_state e) = Inr st
                 \<and> position st = Some p \<longrightarrow>
            (\<exists>u. unrealized_pnl_pct fa p
                    (c_close (last (fetch_historical_data fa fromtimestamp response))) = Inr u
                \<and> trades r
                    = st_trades st
                      @ [close_trade fa p
                           (c_close (last (fetch_historical_data fa fromtimestamp response)))
                           (c_timestamp (last (fetch_historical_data fa fromtimestamp response)))
                           u]))
     \<and> (\<forall>c s st. position st \<noteq> None \<longrightarrow> signal_step fa e tok c s st = st)"
proof (cases "fetch_historical_data fa fromtimestamp response = []")
  case True
  from run_backtest_no_candles [OF True, of e tok signals days now1 now2] assms
  have "trades r = []" by (auto split: if_splits)
  with True show ?thesis
    by (auto simp: init_state_def open_trades_def signal_step_occupied)
next
  case False
  define candles where "candles = fetch_historical_data fa fromtimestamp response"
  from run_backtest_with_candles [OF assms False] obtain stf bal where
    loop: "run_loop fa e tok signals candles (init_state e) = Inr stf" and
    fin: "close_remaining fa candles stf = Inr (bal, trades r)"
    unfolding candles_def by blast
  have wf: "well_formed stf"
    using run_loop_well_formed [OF loop well_formed_init] .
  note cr = close_remaining_cases [OF fin]
  have closed: "\<forall>t\<in>set (trades r). t_closed t"
    using cr wf by (auto simp: well_formed_def list_all_iff t_closed_close_trade)
  have final: "\<exists>u. unrealized_pnl_pct fa p (c_close (last candles)) = Inr u
                \<and> trades r = st_trades st
                      @ [close_trade fa p (c_close (last candles)) (c_timestamp (last candles)) u]"
    if "run_loop fa e tok signals candles (init_state e) = Inr st" "position st = Some p"
    for st p
    using that loop cr by auto
  have prefix: "\<exists>st. run_loop fa e tok signals (take k candles) (init_state e) = Inr st
               \<and> length (open_trades st) \<le> 1
               \<and> (\<forall>p. position st = Some p \<longrightarrow>
                      \<not> t_closed p
                      \<and> (\<exists>pr ts u rest.
                            trades r = st_trades st @ [close_trade fa p pr ts u] @ rest))"
    if "k \<le> length candles" for k
  proof -
    have "run_loop fa e tok signals (take k candles @ drop k candles) (init_state e) = Inr stf"
      using loop by simp
    then obtain stk where
      a: "run_loop fa e tok signals (take k candles) (init_state e) = Inr stk" and
      b: "run_loop fa e tok signals (drop k candles) stk = Inr stf"
      unfolding run_loop_append by (auto split: sum.splits)
    have wk: "well_formed stk"
      using run_loop_well_formed [OF a well_formed_init] .
    have "\<not> t_closed p \<and> (\<exists>pr ts u rest.
             trades r = st_trades stk @ [close_trade fa p pr ts u] @ rest)"
      if p: "position stk = Some p" for p
    proof -
      have n: "\<not> t_closed p"
        using wk p by (simp add: well_formed_def)
      from run_loop_position_closed [OF b p]
      have "\<exists>pr ts u rest. trades r = st_trades stk @ [close_trade fa p pr ts u] @ rest"
      proof
        assume s: "position stf = Some p \<and> st_trades stf = st_trades stk"
        with cr obtain u where
          "trades r = st_trades stk
             @ [close_trade fa p (c_close (last candles)) (c_timestamp (last candles)) u]"
          by auto
        then show ?thesis by auto
      next
        assume "\<exists>pr ts u rest.
                  st_trades stf = st_trades stk @ [close_trade fa p pr ts u] @ rest"
        then obtain pr ts u rest where
          m: "st_trades stf = st_trades stk @ [close_trade fa p pr ts u] @ rest"
          by blast
        from cr obtain more where "trades r = st_trades stf @ more"
          by auto
        with m have "trades r = st_trades stk @ [close_trade fa p pr ts u] @ (rest @ more)"
          by simp
        then show ?thesis by blast
      qed
      with n show ?thesis by simp
    qed
    with a open_trades_well_formed [OF wk] show ?thesis by blast
  qed
  have scan: "\<forall>c s st. position st \<noteq> None \<longrightarrow> signal_step fa e tok c s st = st"
    by (auto simp: signal_step_occupied)
  show ?thesis
    using closed prefix final scan unfolding candles_def by blast
qed

theorem single_position_and_all_trades_closed_witness:
  "run_backtest exact_arith example_engine ''solana'' [buy_signal, late_bullish_signal] 30 0 0
     utc_fromtimestamp three_bar_response = Inr three_bar_result
   \<and> list_all t_closed (trades three_bar_result)
   \<and> length (trades three_bar_result) = 2
   \<and> length (fetch_historical_data exact_arith utc_fromtimestamp three_bar_response) = 3
   \<and> (\<exists>st. run_loop exact_arith example_engine ''solana'' [buy_signal, late_bullish_signal]
              (take 2 (fetch_historical_data exact_arith utc_fromtimestamp three_bar_response))
              (init_state example_engine)
              = Inr st
           \<and> position st = Some second_position
           \<and> length (open_trades st) \<le> 1
           \<and> (\<exists>pr ts u rest.
                 trades three_bar_result
                   = st_trades st @ [close_trade exact_arith second_position pr ts u] @ rest))"
proof -
  note main = single_position_and_all_trades_closed [OF three_bar_run]
  have 1: "list_all t_closed (trades three_bar_result)"
    using main by (simp add: list_all_iff)
  have 2: "length (trades three_bar_result) = 2"
    by (simp add: three_bar_result_def)
  have 3: "length (fetch_historical_data exact_arith utc_fromtimestamp three_bar_response) = 3"
    by (simp add: three_bar_candles)
  have "run_loop exact_arith example_engine ''solana'' [buy_signal, late_bullish_signal]
              (take 2 (fetch_historical_data exact_arith utc_fromtimestamp three_bar_response))
              (init_state example_engine)
          = Inr \<lparr> balance = 28125 / 4, position = Some second_position,
                  st_trades = [first_trade_closed],
                  st_equity_curve =
                    [\<lparr> ep_timestamp = 0, ep_equity = 10000, ep_price = 64 \<rparr>,
                     \<lparr> ep_timestamp = 14400, ep_equity = 9375, ep_price = 48 \<rparr>],
                  peak_balance = 10000 \<rparr>"
    by (simp add: three_bar_candles)
      (simp add: engine_defs example_engine_def buy_signal_def
         late_bullish_signal_def second_position_def first_trade_closed_def)
  moreover from main 3
  have "\<exists>st. run_loop exact_arith example_engine ''solana'' [buy_signal, late_bullish_signal]
              (take 2 (fetch_historical_data exact_arith utc_fromtimestamp three_bar_response))
              (init_state example_engine)
              = Inr st
           \<and> length (open_trades st) \<le> 1
           \<and> (\<forall>p. position st = Some p \<longrightarrow>
                      \<not> t_closed p
                      \<and> (\<exists>pr ts u rest.
                            trades three_bar_result
                              = st_trades st @ [close_trade exact_arith p pr ts u] @ rest))"
    by simp
  ultimately have 4:
    "\<exists>st. run_loop exact_arith example_engine ''solana'' [buy_signal, late_bullish_signal]
              (take 2 (fetch_historical_data exact_arith utc_fromtimestamp three_bar_response))
              (init_state example_engine)
              = Inr st
           \<and> position st = Some second_position
           \<and> length (open_trades st) \<le> 1
           \<and> (\<exists>pr ts u rest.
                 trades three_bar_result
                   = st_trades st @ [close_trade exact_arith second_position pr ts u] @ rest)"
    by auto
  from three_bar_run 1 2 3 4 show ?thesis by blast
qed

end
